theory Spec2Isabelle
  imports Complex_Main
begin

section \<open>The DataLoggerViewer of pyleco-extras\<close>

text \<open>
  A shallow embedding of \<^verbatim>\<open>DataLoggerViewer.start\<close>
  (\<^verbatim>\<open>src/pyleco_extras/gui/DataLogger/DataLoggerViewer.pyw\<close>, lines 76 to 117).
  The method runs on the GUI thread, reads a file name from a dialog, calls the file loader
  and then assigns fields of the window object one after the other. The window object is a
  record that is passed in and returned; an exception leaves the assignments made so far in
  place, so \<open>start\<close> returns the raised error (if any) together with the state.
\<close>

subsection \<open>Python values\<close>

datatype py_error = IndexError | KeyError | LoaderError

text \<open>
  A Python \<^verbatim>\<open>dict\<close> keeps its keys in insertion order, and
  \<^verbatim>\<open>list(d).pop()\<close> depends on that order, so a dict is an association list.
  \<^verbatim>\<open>k in d.keys()\<close> is membership in \<open>dict_keys\<close>, \<^verbatim>\<open>d[k]\<close> is
  \<open>dict_getitem\<close> (KeyError when the key is missing), \<^verbatim>\<open>d[k] = v\<close> is
  \<open>dict_setitem\<close> (an existing key keeps its place, a new key goes to the end), and
  \<^verbatim>\<open>d.get(k, default)\<close> is \<open>dict_get\<close>.
\<close>

type_synonym ('k, 'v) dict = "('k \<times> 'v) list"

definition dict_keys :: "('k, 'v) dict \<Rightarrow> 'k list" where
  "dict_keys d = map fst d"

definition dict_getitem :: "('k, 'v) dict \<Rightarrow> 'k \<Rightarrow> py_error + 'v" where
  "dict_getitem d k = (case map_of d k of None \<Rightarrow> Inl KeyError | Some v \<Rightarrow> Inr v)"

definition dict_get :: "('k, 'v) dict \<Rightarrow> 'k \<Rightarrow> 'v \<Rightarrow> 'v" where
  "dict_get d k dflt = (case map_of d k of None \<Rightarrow> dflt | Some v \<Rightarrow> v)"

fun dict_setitem :: "('k, 'v) dict \<Rightarrow> 'k \<Rightarrow> 'v \<Rightarrow> ('k, 'v) dict" where
  "dict_setitem [] k v = [(k, v)]"
| "dict_setitem ((k', v') # d) k v =
     (if k' = k then (k, v) # d else (k', v') # dict_setitem d k v)"

text \<open>\<^verbatim>\<open>xs.pop()\<close>: the last element, IndexError on an empty list.\<close>

definition list_pop :: "'a list \<Rightarrow> py_error + 'a" where
  "list_pop xs = (if xs = [] then Inl IndexError else Inr (last xs))"

text \<open>\<^verbatim>\<open>xs[0]\<close>: the first element, IndexError on an empty list.\<close>

definition list_first :: "'a list \<Rightarrow> py_error + 'a" where
  "list_first xs = (case xs of [] \<Rightarrow> Inl IndexError | x # _ \<Rightarrow> Inr x)"

text \<open>
  \<^verbatim>\<open>s.rsplit(sep, maxsplit=1)\<close> for a separator of one character: the string is cut at
  the last occurrence of the separator, and a string without the separator comes back whole.
\<close>

definition rsplit1 :: "string \<Rightarrow> char \<Rightarrow> string list" where
  "rsplit1 s sep =
     (if sep \<in> set s
      then [rev (tl (dropWhile (\<lambda>c. c \<noteq> sep) (rev s))), rev (takeWhile (\<lambda>c. c \<noteq> sep) (rev s))]
      else [s])"

definition newline :: char where
  "newline = CHR 0x0A"

text \<open>\<^verbatim>\<open>str(n)\<close> inside the f-string: the decimal digits of a length.\<close>

function str_nat :: "nat \<Rightarrow> string" where
  "str_nat n =
     (if n < 10 then [''0123456789'' ! n]
      else str_nat (n div 10) @ [''0123456789'' ! (n mod 10)])"
  by pat_completeness auto
termination
  by (relation "measure id") auto

declare str_nat.simps [simp del]

text \<open>
  The values of the metadata mapping are whatever the file held; the viewer only hands the
  entry \<^verbatim>\<open>"configuration"\<close> on, so they are JSON values.
\<close>

datatype json =
    JNull
  | JBool bool
  | JNum real
  | JStr string
  | JArr "json list"
  | JObj "(string \<times> json) list"

subsection \<open>pathlib\<close>

text \<open>
  \<^verbatim>\<open>Path(file_name)\<close> in the POSIX flavour: \<^verbatim>\<open>posixpath.splitroot\<close> takes the
  root off (one slash, exactly two slashes, or none), and the rest is split at slashes
  with the empty and the \<^verbatim>\<open>"."\<close> components left out. \<^verbatim>\<open>path.name\<close> is the last
  component, or the empty string when there is none.
\<close>

record path =
  root :: string
  tail :: "string list"

fun split_sep :: "string \<Rightarrow> char \<Rightarrow> string list" where
  "split_sep [] sep = [[]]"
| "split_sep (c # s) sep =
     (if c = sep then [] # split_sep s sep
      else (c # hd (split_sep s sep)) # tl (split_sep s sep))"

definition splitroot :: "string \<Rightarrow> string \<times> string" where
  "splitroot p =
     (if take 1 p \<noteq> ''/'' then ('''', p)
      else if take 1 (drop 1 p) \<noteq> ''/'' \<or> take 1 (drop 2 p) = ''/'' then (''/'', drop 1 p)
      else (take 2 p, drop 2 p))"

definition Path :: "string \<Rightarrow> path" where
  "Path p =
     (if p = [] then \<lparr>root = '''', tail = []\<rparr>
      else case splitroot p of
        (r, rel) \<Rightarrow> \<lparr>root = r, tail = filter (\<lambda>x. x \<noteq> [] \<and> x \<noteq> ''.'') (split_sep rel CHR ''/'')\<rparr>)"

definition name :: "path \<Rightarrow> string" where
  "name p = (if tail p = [] then '''' else last (tail p))"

subsection \<open>The window object and its collaborators\<close>

datatype signal = Update_plots | Started

text \<open>A plot window is an object of the GUI; only its identity matters here.\<close>

type_synonym plot = nat

text \<open>
  The fields that \<^verbatim>\<open>__init__\<close> creates (\<open>plots\<close>, \<open>lists\<close>, \<open>units\<close>,
  \<open>last_path\<close>), the fields of the base window that \<open>start\<close> assigns (\<open>variables\<close>,
  \<open>current_units\<close>, \<open>configuration\<close>), the text of the three widgets it writes, and the
  signals emitted so far, oldest first. Samples are floats in the program; here they are
  reals, and no theorem below uses a law of arithmetic on them.
\<close>

record viewer =
  plots :: "plot list"
  lists :: "(string, real list) dict"
  units :: "(string, string) dict"
  last_path :: string
  variables :: "string list"
  current_units :: "(string, string) dict"
  configuration :: json
  leHeader :: string
  leSavedName :: string
  lbCount :: string
  emitted :: "signal list"

text \<open>
  What \<open>start\<close> calls outside the class: the file dialog (given the start directory, it
  returns the chosen file name, empty on cancel), the persisted \<^verbatim>\<open>savePath\<close> setting,
  and the file loader \<^verbatim>\<open>load_datalogger_file\<close> of \<^verbatim>\<open>analysis.data\<close>, which returns
  header, data and metadata or raises.
\<close>

record env =
  getOpenFileName :: "string \<Rightarrow> string"
  savePath :: string
  load_datalogger_file ::
    "path \<Rightarrow> py_error + (string \<times> (string, real list) dict \<times> (string, json) dict)"

text \<open>
  Modelled from the spec: \<^verbatim>\<open>set_configuration\<close> of the base class
  \<^verbatim>\<open>DataLoggerBase\<close>, which is not among the source files. The spec has it copy the
  configuration verbatim into the viewer's configuration state.
\<close>

definition set_configuration :: "json \<Rightarrow> viewer \<Rightarrow> viewer" where
  "set_configuration c s = s\<lparr>configuration := c\<rparr>"

definition emit :: "signal \<Rightarrow> viewer \<Rightarrow> viewer" where
  "emit sig s = s\<lparr>emitted := emitted s @ [sig]\<rparr>"

subsection \<open>start\<close>

text \<open>Lines 79 to 92: the dialog opens at \<^verbatim>\<open>self.last_path or settings.value('savePath')\<close>.\<close>

definition file_dialog :: "env \<Rightarrow> viewer \<Rightarrow> string" where
  "file_dialog e s = getOpenFileName e (if last_path s \<noteq> [] then last_path s else savePath e)"

text \<open>Lines 101 to 106: the derived hours column.\<close>

definition derive_time_h ::
  "(string, real list) dict \<Rightarrow> viewer \<Rightarrow> py_error option \<times> viewer" where
  "derive_time_h data s =
     (if ''time'' \<in> set (dict_keys data) \<and> ''time_h'' \<notin> set (dict_keys data) then
        (case dict_getitem data ''time'' of
           Inl err \<Rightarrow> (Some err, s)
         | Inr ts \<Rightarrow>
             let s1 = s\<lparr>lists := dict_setitem (lists s) ''time_h'' (map (\<lambda>x. x / 3600) ts)\<rparr>;
                 s2 = s1\<lparr>variables := variables s1 @ [''time_h'']\<rparr>;
                 d = dict_setitem (units s2) ''time_h'' ''h''
             in (None, s2\<lparr>units := d\<rparr>))
      else (None, s))"

text \<open>
  Lines 112 to 117: the count of data points. Only IndexError is caught; any other error
  would leave \<open>start\<close>.
\<close>

definition show_count :: "viewer \<Rightarrow> py_error option \<times> viewer" where
  "show_count s =
     (case list_pop (dict_keys (lists s)) of
        Inl IndexError \<Rightarrow> (None, s)
      | Inl err \<Rightarrow> (Some err, s)
      | Inr k \<Rightarrow>
          (case dict_getitem (lists s) k of
             Inl IndexError \<Rightarrow> (None, s)
           | Inl err \<Rightarrow> (Some err, s)
           | Inr v \<Rightarrow> (None, s\<lparr>lbCount := ''Data points: '' @ str_nat (length v)\<rparr>)))"

text \<open>Lines 98 to 117: what \<open>start\<close> does with a loaded file.\<close>

definition show_file ::
  "path \<Rightarrow> string \<Rightarrow> (string, real list) dict \<Rightarrow> (string, json) dict \<Rightarrow> viewer \<Rightarrow>
    py_error option \<times> viewer" where
  "show_file p header data meta s =
     (let s1 = s\<lparr>lists := data\<rparr> in
      case list_first (rsplit1 header newline) of
        Inl err \<Rightarrow> (Some err, s1)
      | Inr text \<Rightarrow>
          (let s2 = s1\<lparr>leHeader := text\<rparr>;
               s3 = set_configuration (dict_get meta ''configuration'' (JObj [])) s2
           in (case derive_time_h data s3 of
                 (Some err, s4) \<Rightarrow> (Some err, s4)
               | (None, s4) \<Rightarrow>
                   (let s5 = s4\<lparr>current_units := units s4\<rparr>;
                        s6 = s5\<lparr>leSavedName := name p\<rparr>;
                        s7 = emit Update_plots s6;
                        s8 = emit Started s7
                    in show_count s8))))"

text \<open>
  The whole method. The first component of the result is the exception that leaves
  \<open>start\<close>, or \<open>None\<close> when it returns.
\<close>

definition start :: "env \<Rightarrow> viewer \<Rightarrow> py_error option \<times> viewer" where
  "start e s =
     (let file_name = file_dialog e s in
      if file_name = [] then (None, s)
      else
        let s1 = s\<lparr>last_path := file_name\<rparr>;
            p = Path file_name
        in (case load_datalogger_file e p of
              Inl err \<Rightarrow> (Some err, s1)
            | Inr (header, data, meta) \<Rightarrow> show_file p header data meta s1))"

subsection \<open>The spec's header text and example inputs\<close>

text \<open>
  The spec's words for the displayed header, "the loaded header string with its final line
  removed": the lines of the header are the pieces between its newline characters, the last
  of them is left out, and the others are joined with newlines again. This is the spec's
  side of the comparison with line 99 of the source; \<open>start\<close> does not use it.
\<close>

fun join_sep :: "string list \<Rightarrow> char \<Rightarrow> string" where
  "join_sep [] sep = []"
| "join_sep [l] sep = l"
| "join_sep (l # m # ls) sep = l @ sep # join_sep (m # ls) sep"

definition header_without_final_line :: "string \<Rightarrow> string" where
  "header_without_final_line header = join_sep (butlast (split_sep header newline)) newline"

text \<open>
  Inputs for the examples: the window as \<^verbatim>\<open>__init__\<close> leaves it (lines 54 to 57, with
  the base window's fields empty), and an environment in which the dialog returns a given
  file name and the loader a given result.
\<close>

definition fresh_viewer :: viewer where
  "fresh_viewer =
     \<lparr>plots = [], lists = [], units = [], last_path = '''', variables = [],
      current_units = [], configuration = JObj [], leHeader = '''', leSavedName = '''',
      lbCount = '''', emitted = []\<rparr>"

definition file_env ::
  "string \<Rightarrow> py_error + (string \<times> (string, real list) dict \<times> (string, json) dict) \<Rightarrow> env" where
  "file_env file_name loaded =
     \<lparr>getOpenFileName = (\<lambda>directory. file_name), savePath = ''/data'',
      load_datalogger_file = (\<lambda>p. loaded)\<rparr>"

text \<open>
  A measurement file \<^verbatim>\<open>/a/b/run1.json\<close> with a time column in seconds, one logged
  variable and a configuration; and the window after that file, with a header of the three
  lines \<^verbatim>\<open>A\<close>, \<^verbatim>\<open>B\<close>, \<^verbatim>\<open>C\<close>, has been loaded into the fresh window.
\<close>

definition run1_data :: "(string, real list) dict" where
  "run1_data = [(''time'', [0, 3600, 7200]), (''x'', [5, 6, 7])]"

definition run1_meta :: "(string, json) dict" where
  "run1_meta = [(''configuration'', JObj [(''trigger_type'', JStr ''timer'')])]"

definition run1_viewer :: viewer where
  "run1_viewer =
     \<lparr>plots = [],
      lists = [(''time'', [0, 3600, 7200]), (''x'', [5, 6, 7]), (''time_h'', [0, 1, 2])],
      units = [(''time_h'', ''h'')], last_path = ''/a/b/run1.json'',
      variables = [''time_h''], current_units = [(''time_h'', ''h'')],
      configuration = JObj [(''trigger_type'', JStr ''timer'')],
      leHeader = ''A\<newline>B'', leSavedName = ''run1.json'',
      lbCount = ''Data points: 3'', emitted = [Update_plots, Started]\<rparr>"

section \<open>Properties\<close>

subsection \<open>Strings, paths and dicts\<close>

lemma split_sep_not_Nil [simp]: "split_sep s sep \<noteq> []"
  by (induction s) auto

lemma split_sep_whole: "sep \<notin> set s \<Longrightarrow> split_sep s sep = [s]"
  by (induction s) auto

lemma split_sep_append: "split_sep (ys @ sep # zs) sep = split_sep ys sep @ split_sep zs sep"
  by (induction ys) (auto simp: hd_append)

lemma split_sep_free: "x \<in> set (split_sep s sep) \<Longrightarrow> sep \<notin> set x"
proof (induction s arbitrary: x)
  case Nil
  then show ?case by simp
next
  case (Cons c s)
  obtain l ls where r: "split_sep s sep = l # ls"
    by (cases "split_sep s sep") auto
  show ?case
  proof (cases "c = sep")
    case True
    with Cons.prems have "x = [] \<or> x \<in> set (split_sep s sep)" by simp
    then show ?thesis using Cons.IH by auto
  next
    case False
    with Cons.prems r have "x = c # l \<or> x \<in> set ls" by simp
    moreover have "sep \<notin> set l" using Cons.IH [of l] r by simp
    moreover have "x \<in> set ls \<Longrightarrow> sep \<notin> set x" using Cons.IH [of x] r by simp
    ultimately show ?thesis using False by auto
  qed
qed

lemma join_sep_Cons: "join_sep ((c # m) # ls) sep = c # join_sep (m # ls) sep"
  by (cases ls) auto

lemma join_split_sep: "join_sep (split_sep s sep) sep = s"
proof (induction s)
  case Nil
  then show ?case by simp
next
  case (Cons c s)
  obtain l ls where r: "split_sep s sep = l # ls"
    by (cases "split_sep s sep") auto
  with Cons show ?case by (simp add: join_sep_Cons)
qed

lemma rsplit1_cut:
  assumes "sep \<notin> set zs"
  shows "rsplit1 (ys @ sep # zs) sep = [ys, zs]"
proof -
  have "takeWhile (\<lambda>c. c \<noteq> sep) (rev zs @ sep # rev ys) =
      rev zs @ takeWhile (\<lambda>c. c \<noteq> sep) (sep # rev ys)"
    by (rule takeWhile_append2) (use assms in auto)
  moreover have "dropWhile (\<lambda>c. c \<noteq> sep) (rev zs @ sep # rev ys) =
      dropWhile (\<lambda>c. c \<noteq> sep) (sep # rev ys)"
    by (rule dropWhile_append2) (use assms in auto)
  ultimately show ?thesis by (simp add: rsplit1_def)
qed

lemma rsplit1_whole: "sep \<notin> set s \<Longrightarrow> rsplit1 s sep = [s]"
  by (simp add: rsplit1_def)

lemma list_first_rsplit1: "list_first (rsplit1 s sep) = Inr (hd (rsplit1 s sep))"
  by (simp add: list_first_def rsplit1_def)

lemma header_cut:
  assumes "sep \<in> set s"
  shows "hd (rsplit1 s sep) = join_sep (butlast (split_sep s sep)) sep"
proof -
  from assms obtain ys zs where s: "s = ys @ sep # zs" and zs: "sep \<notin> set zs"
    by (auto dest: split_list_last)
  have "butlast (split_sep s sep) = split_sep ys sep"
    using zs by (simp add: s split_sep_append split_sep_whole butlast_append)
  then show ?thesis
    using zs by (simp add: s rsplit1_cut join_split_sep)
qed

lemma tail_Path: "tail (Path p) = filter (\<lambda>x. x \<noteq> [] \<and> x \<noteq> ''.'') (split_sep p CHR ''/'')"
proof (cases p)
  case Nil
  then show ?thesis by (simp add: Path_def)
next
  case p: (Cons c p')
  show ?thesis
  proof (cases p')
    case Nil
    with p show ?thesis by (simp add: Path_def splitroot_def)
  next
    case p': (Cons c' p'')
    show ?thesis
      by (cases p'') (auto simp: p p' Path_def splitroot_def)
  qed
qed

lemma name_no_slash: "CHR ''/'' \<notin> set (name (Path p))"
proof (cases "tail (Path p) = []")
  case True
  then show ?thesis by (simp add: name_def)
next
  case False
  then have "last (tail (Path p)) \<in> set (tail (Path p))" by simp
  then have "name (Path p) \<in> set (split_sep p CHR ''/'')"
    using False by (simp add: name_def tail_Path)
  then show ?thesis by (rule split_sep_free)
qed

lemma name_base:
  assumes "CHR ''/'' \<notin> set base" "base \<noteq> []" "base \<noteq> ''.''"
  shows "name (Path (dir @ ''/'' @ base)) = base"
  using assms by (simp add: name_def tail_Path split_sep_append split_sep_whole)

lemma name_plain:
  assumes "CHR ''/'' \<notin> set base" "base \<noteq> []" "base \<noteq> ''.''"
  shows "name (Path base) = base"
  using assms by (simp add: name_def tail_Path split_sep_whole)

lemma dict_setitem_new: "k \<notin> set (dict_keys d) \<Longrightarrow> dict_setitem d k v = d @ [(k, v)]"
  by (induction d) (auto simp: dict_keys_def)

lemma dict_getitem_setitem: "dict_getitem (dict_setitem d k v) k = Inr v"
  by (induction d) (auto simp: dict_getitem_def)

lemma dict_getitem_key: "k \<in> set (dict_keys d) \<Longrightarrow> \<exists>v. dict_getitem d k = Inr v"
  by (induction d) (auto simp: dict_getitem_def dict_keys_def)


lemma derive_time_h_yes:
  assumes "''time'' \<in> set (dict_keys data)" "''time_h'' \<notin> set (dict_keys data)"
  shows "\<exists>ts. dict_getitem data ''time'' = Inr ts \<and>
    derive_time_h data s =
      (None, s\<lparr>lists := dict_setitem (lists s) ''time_h'' (map (\<lambda>x. x / 3600) ts),
               variables := variables s @ [''time_h''],
               units := dict_setitem (units s) ''time_h'' ''h''\<rparr>)"
proof -
  from assms(1) obtain ts where "dict_getitem data ''time'' = Inr ts"
    by (auto dest: dict_getitem_key)
  then show ?thesis using assms by (simp add: derive_time_h_def)
qed

lemma derive_time_h_no:
  assumes "''time'' \<notin> set (dict_keys data) \<or> ''time_h'' \<in> set (dict_keys data)"
  shows "derive_time_h data s = (None, s)"
  using assms by (auto simp: derive_time_h_def)

lemma show_count_empty: "lists s = [] \<Longrightarrow> show_count s = (None, s)"
  by (simp add: show_count_def list_pop_def dict_keys_def)

lemma show_count_last:
  assumes "lists s \<noteq> []"
  shows "\<exists>v. dict_getitem (lists s) (last (dict_keys (lists s))) = Inr v \<and>
    show_count s = (None, s\<lparr>lbCount := ''Data points: '' @ str_nat (length v)\<rparr>)"
proof -
  from assms have "last (dict_keys (lists s)) \<in> set (dict_keys (lists s))"
    using last_in_set [of "dict_keys (lists s)"] by (simp add: dict_keys_def)
  then obtain v where "dict_getitem (lists s) (last (dict_keys (lists s))) = Inr v"
    by (auto dest: dict_getitem_key)
  then show ?thesis using assms by (simp add: show_count_def list_pop_def dict_keys_def)
qed

text \<open>
  The decimal rendering of a length determines the length, so the count label determines
  the count it shows.
\<close>

lemma digit_inject:
  assumes "d < 10" "e < 10" "''0123456789'' ! d = ''0123456789'' ! e"
  shows "d = e"
proof -
  have "distinct ''0123456789''" by simp
  moreover have "d < length ''0123456789''" "e < length ''0123456789''"
    using assms by simp_all
  ultimately show ?thesis using assms(3) by (simp only: nth_eq_iff_index_eq)
qed

lemma str_nat_not_Nil: "str_nat n \<noteq> []"
  by (subst str_nat.simps) simp

lemma last_str_nat: "last (str_nat n) = ''0123456789'' ! (n mod 10)"
  by (subst str_nat.simps) simp

lemma butlast_str_nat: "butlast (str_nat n) = (if n < 10 then [] else str_nat (n div 10))"
  by (subst str_nat.simps) simp

lemma str_nat_inject: "str_nat m = str_nat n \<Longrightarrow> m = n"
proof (induction m arbitrary: n rule: less_induct)
  case (less m)
  from less.prems have "last (str_nat m) = last (str_nat n)" by simp
  then have "''0123456789'' ! (m mod 10) = ''0123456789'' ! (n mod 10)"
    by (simp only: last_str_nat)
  then have mod: "m mod 10 = n mod 10"
    by (intro digit_inject) simp_all
  from less.prems have b: "butlast (str_nat m) = butlast (str_nat n)" by simp
  show ?case
  proof (cases "m < 10")
    case True
    with b have "n < 10"
      using str_nat_not_Nil [of "n div 10"]
      by (auto simp: butlast_str_nat split: if_splits)
    with True mod show ?thesis by simp
  next
    case False
    with b have eq: "str_nat (m div 10) = str_nat (n div 10)"
      using str_nat_not_Nil [of "m div 10"]
      by (auto simp: butlast_str_nat split: if_splits)
    from False have "m div 10 < m" by simp
    then have "m div 10 = n div 10" using eq by (rule less.IH)
    with mod show ?thesis
      by (metis div_mult_mod_eq)
  qed
qed

lemma count_label_inject:
  "''Data points: '' @ str_nat m = ''Data points: '' @ str_nat n \<Longrightarrow> m = n"
  by (simp add: str_nat_inject)

subsection \<open>The paths through start\<close>

lemma dict_keys_setitem_new:
  "k \<notin> set (dict_keys d) \<Longrightarrow> dict_keys (dict_setitem d k v) = dict_keys d @ [k]"
  by (simp add: dict_setitem_new) (simp add: dict_keys_def)

lemma start_cancel: "file_dialog e s = [] \<Longrightarrow> start e s = (None, s)"
  by (simp add: start_def)

lemma start_load_error:
  assumes "file_dialog e s = file_name" "file_name \<noteq> []"
    and "load_datalogger_file e (Path file_name) = Inl err"
  shows "start e s = (Some err, s\<lparr>last_path := file_name\<rparr>)"
  using assms by (simp add: start_def)

lemma start_loaded:
  assumes "file_dialog e s = file_name" "file_name \<noteq> []"
    and "load_datalogger_file e (Path file_name) = Inr (header, data, meta)"
  shows "start e s = show_file (Path file_name) header data meta (s\<lparr>last_path := file_name\<rparr>)"
  using assms by (simp add: start_def)

lemma show_file_derived:
  assumes "''time'' \<in> set (dict_keys data)" "''time_h'' \<notin> set (dict_keys data)"
  shows "\<exists>ts. dict_getitem data ''time'' = Inr ts \<and>
    show_file p header data meta s =
      (None, s\<lparr>lists := dict_setitem data ''time_h'' (map (\<lambda>x. x / 3600) ts),
               leHeader := hd (rsplit1 header newline),
               configuration := dict_get meta ''configuration'' (JObj []),
               variables := variables s @ [''time_h''],
               units := dict_setitem (units s) ''time_h'' ''h'',
               current_units := dict_setitem (units s) ''time_h'' ''h'',
               leSavedName := name p,
               emitted := emitted s @ [Update_plots, Started],
               lbCount := ''Data points: '' @ str_nat (length ts)\<rparr>)"
proof -
  from assms(1) obtain ts where ts: "dict_getitem data ''time'' = Inr ts"
    by (auto dest: dict_getitem_key)
  have keys: "dict_keys (dict_setitem data ''time_h'' v) = dict_keys data @ [''time_h'']" for v
    using assms(2) by (rule dict_keys_setitem_new)
  have "show_file p header data meta s =
      (None, s\<lparr>lists := dict_setitem data ''time_h'' (map (\<lambda>x. x / 3600) ts),
               leHeader := hd (rsplit1 header newline),
               configuration := dict_get meta ''configuration'' (JObj []),
               variables := variables s @ [''time_h''],
               units := dict_setitem (units s) ''time_h'' ''h'',
               current_units := dict_setitem (units s) ''time_h'' ''h'',
               leSavedName := name p,
               emitted := emitted s @ [Update_plots, Started],
               lbCount := ''Data points: '' @ str_nat (length ts)\<rparr>)"
    using assms ts
    by (cases s)
      (simp add: show_file_def list_first_rsplit1 set_configuration_def emit_def
        derive_time_h_def show_count_def list_pop_def keys dict_getitem_setitem)
  with ts show ?thesis by blast
qed

lemma show_file_plain:
  assumes "''time'' \<notin> set (dict_keys data) \<or> ''time_h'' \<in> set (dict_keys data)"
  shows "show_file p header data meta s =
      show_count (s\<lparr>lists := data,
               leHeader := hd (rsplit1 header newline),
               configuration := dict_get meta ''configuration'' (JObj []),
               current_units := units s,
               leSavedName := name p,
               emitted := emitted s @ [Update_plots, Started]\<rparr>)"
  using assms
  by (cases s)
    (auto simp: show_file_def list_first_rsplit1 set_configuration_def emit_def derive_time_h_def)

lemmas run_defs =
  start_def file_dialog_def show_file_def derive_time_h_def show_count_def
  set_configuration_def emit_def list_first_def list_pop_def rsplit1_def newline_def
  dict_keys_def dict_getitem_def dict_get_def name_def Path_def splitroot_def
  file_env_def fresh_viewer_def

lemma show_file_plain_result:
  assumes "''time'' \<notin> set (dict_keys data) \<or> ''time_h'' \<in> set (dict_keys data)"
  shows "\<exists>c. show_file p header data meta s =
      (None, s\<lparr>lists := data,
               leHeader := hd (rsplit1 header newline),
               configuration := dict_get meta ''configuration'' (JObj []),
               current_units := units s,
               leSavedName := name p,
               emitted := emitted s @ [Update_plots, Started],
               lbCount := c\<rparr>) \<and>
      (data = [] \<longrightarrow> c = lbCount s) \<and>
      (data \<noteq> [] \<longrightarrow>
        (\<exists>v. dict_getitem data (last (dict_keys data)) = Inr v \<and>
          c = ''Data points: '' @ str_nat (length v)))"
proof (cases "data = []")
  case True
  let ?s8 = "s\<lparr>lists := data,
               leHeader := hd (rsplit1 header newline),
               configuration := dict_get meta ''configuration'' (JObj []),
               current_units := units s,
               leSavedName := name p,
               emitted := emitted s @ [Update_plots, Started]\<rparr>"
  have "show_count ?s8 = (None, ?s8)"
    using True by (simp add: show_count_empty)
  then have "show_file p header data meta s = (None, ?s8\<lparr>lbCount := lbCount s\<rparr>)"
    using show_file_plain [OF assms, of p header meta s] by (cases s) simp
  with True show ?thesis by blast
next
  case False
  let ?s8 = "s\<lparr>lists := data,
               leHeader := hd (rsplit1 header newline),
               configuration := dict_get meta ''configuration'' (JObj []),
               current_units := units s,
               leSavedName := name p,
               emitted := emitted s @ [Update_plots, Started]\<rparr>"
  from False have "lists ?s8 \<noteq> []" by simp
  from show_count_last [OF this] obtain v
    where v: "dict_getitem data (last (dict_keys data)) = Inr v"
      and "show_count ?s8 = (None, ?s8\<lparr>lbCount := ''Data points: '' @ str_nat (length v)\<rparr>)"
    by auto
  then have "show_file p header data meta s =
      (None, ?s8\<lparr>lbCount := ''Data points: '' @ str_nat (length v)\<rparr>)"
    using show_file_plain [OF assms, of p header meta s] by simp
  with False v show ?thesis by blast
qed

lemma start_loaded_common:
  assumes "file_dialog e s = file_name" "file_name \<noteq> []"
    and "load_datalogger_file e (Path file_name) = Inr (header, data, meta)"
    and "start e s = (r, s')"
  shows "r = None"
    and "last_path s' = file_name"
    and "leHeader s' = hd (rsplit1 header newline)"
    and "configuration s' = dict_get meta ''configuration'' (JObj [])"
    and "leSavedName s' = name (Path file_name)"
    and "current_units s' = units s'"
    and "emitted s' = emitted s @ [Update_plots, Started]"
    and "plots s' = plots s"
proof -
  let ?s1 = "s\<lparr>last_path := file_name\<rparr>"
  have run: "show_file (Path file_name) header data meta ?s1 = (r, s')"
    using assms by (simp add: start_loaded)
  have "r = None \<and> last_path s' = file_name \<and> leHeader s' = hd (rsplit1 header newline) \<and>
    configuration s' = dict_get meta ''configuration'' (JObj []) \<and>
    leSavedName s' = name (Path file_name) \<and> current_units s' = units s' \<and>
    emitted s' = emitted s @ [Update_plots, Started] \<and> plots s' = plots s"
  proof (cases "''time'' \<in> set (dict_keys data) \<and> ''time_h'' \<notin> set (dict_keys data)")
    case True
    then show ?thesis
      using show_file_derived [of data "Path file_name" header meta ?s1] run by auto
  next
    case False
    then show ?thesis
      using show_file_plain_result [of data "Path file_name" header meta ?s1] run by auto
  qed
  then show "r = None"
    and "last_path s' = file_name"
    and "leHeader s' = hd (rsplit1 header newline)"
    and "configuration s' = dict_get meta ''configuration'' (JObj [])"
    and "leSavedName s' = name (Path file_name)"
    and "current_units s' = units s'"
    and "emitted s' = emitted s @ [Update_plots, Started]"
    and "plots s' = plots s"
    by simp_all
qed

lemma start_loaded_derived:
  assumes "file_dialog e s = file_name" "file_name \<noteq> []"
    and "load_datalogger_file e (Path file_name) = Inr (header, data, meta)"
    and "''time'' \<in> set (dict_keys data)" "''time_h'' \<notin> set (dict_keys data)"
    and "start e s = (r, s')"
  shows "\<exists>ts. dict_getitem data ''time'' = Inr ts \<and>
    lists s' = data @ [(''time_h'', map (\<lambda>x. x / 3600) ts)] \<and>
    variables s' = variables s @ [''time_h''] \<and>
    units s' = dict_setitem (units s) ''time_h'' ''h'' \<and>
    lbCount s' = ''Data points: '' @ str_nat (length ts)"
proof -
  let ?s1 = "s\<lparr>last_path := file_name\<rparr>"
  have run: "show_file (Path file_name) header data meta ?s1 = (r, s')"
    using assms by (simp add: start_loaded)
  from show_file_derived [OF assms(4,5), of "Path file_name" header meta ?s1] run
  show ?thesis using assms(5) by (auto simp: dict_setitem_new)
qed

lemma start_loaded_plain:
  assumes "file_dialog e s = file_name" "file_name \<noteq> []"
    and "load_datalogger_file e (Path file_name) = Inr (header, data, meta)"
    and "''time'' \<notin> set (dict_keys data) \<or> ''time_h'' \<in> set (dict_keys data)"
    and "start e s = (r, s')"
  shows "lists s' = data" and "variables s' = variables s" and "units s' = units s"
    and "data = [] \<Longrightarrow> lbCount s' = lbCount s"
    and "data \<noteq> [] \<Longrightarrow> \<exists>v. dict_getitem data (last (dict_keys data)) = Inr v \<and>
          lbCount s' = ''Data points: '' @ str_nat (length v)"
proof -
  let ?s1 = "s\<lparr>last_path := file_name\<rparr>"
  have run: "show_file (Path file_name) header data meta ?s1 = (r, s')"
    using assms by (simp add: start_loaded)
  from show_file_plain_result [OF assms(4), of "Path file_name" header meta ?s1] run
  have "lists s' = data \<and> variables s' = variables s \<and> units s' = units s \<and>
    (data = [] \<longrightarrow> lbCount s' = lbCount s) \<and>
    (data \<noteq> [] \<longrightarrow> (\<exists>v. dict_getitem data (last (dict_keys data)) = Inr v \<and>
          lbCount s' = ''Data points: '' @ str_nat (length v)))"
    by auto
  then show "lists s' = data" and "variables s' = variables s" and "units s' = units s"
    and "data = [] \<Longrightarrow> lbCount s' = lbCount s"
    and "data \<noteq> [] \<Longrightarrow> \<exists>v. dict_getitem data (last (dict_keys data)) = Inr v \<and>
          lbCount s' = ''Data points: '' @ str_nat (length v)"
    by simp_all
qed

section \<open>The claims\<close>

text \<open>
  In every theorem below \<open>file_dialog e s\<close> is what the dialog returned, and a
  successful load is a call in which that file name is not empty and the loader returns
  \<open>Inr (header, data, meta)\<close>. \<open>start e s = (r, s')\<close> names the outcome: \<open>r\<close> is the
  exception that leaves \<open>start\<close> (\<open>None\<close> when it returns) and \<open>s'\<close> the window afterwards.
\<close>

subsection \<open>Cancel and load failure\<close>

text \<open>
  Claim C5. When the file dialog returns an empty selection (the user cancelled),
  \<open>start\<close> is a no-op: it returns without an exception and the window is the one from
  before the call, so Last Path, the loaded samples, the displayed header and every other
  field are unchanged, and the list of emitted signals has not grown: neither
  \<^verbatim>\<open>update_plots\<close> nor \<^verbatim>\<open>started\<close> is emitted.
\<close>

theorem cancel_is_noop:
  assumes "file_dialog e s = []" and "start e s = (r, s')"
  shows "r = None \<and> s' = s \<and> last_path s' = last_path s \<and> lists s' = lists s \<and>
    leHeader s' = leHeader s \<and> emitted s' = emitted s"
  using assms by (simp add: start_cancel)

text \<open>The loaded window of the example, and a dialog that is cancelled.\<close>

theorem cancel_is_noop_witness:
  "file_dialog (file_env '''' (Inl LoaderError)) run1_viewer = [] \<and>
   start (file_env '''' (Inl LoaderError)) run1_viewer = (None, run1_viewer)"
proof -
  have d: "file_dialog (file_env '''' (Inl LoaderError)) run1_viewer = []"
    by (simp add: file_dialog_def file_env_def)
  obtain r s' where run: "start (file_env '''' (Inl LoaderError)) run1_viewer = (r, s')"
    by (cases "start (file_env '''' (Inl LoaderError)) run1_viewer")
  from cancel_is_noop [OF d run] run d show ?thesis
    by simp
qed

text \<open>
  Claim C3, as amended. When the loader raises, its error leaves \<open>start\<close> and the window
  is the one from before the call except for Last Path, which line 95 has already set to the
  selected file name: samples, header text, configuration, units, variables, labels and
  emitted signals are unchanged.
\<close>

theorem load_error_changes_last_path_only:
  assumes "file_dialog e s = file_name" and "file_name \<noteq> []"
    and "load_datalogger_file e (Path file_name) = Inl err"
    and "start e s = (r, s')"
  shows "r = Some err \<and> s' = s\<lparr>last_path := file_name\<rparr>"
  using assms by (simp add: start_load_error)

theorem load_error_changes_last_path_only_witness:
  "file_dialog (file_env ''/a/b/broken.json'' (Inl LoaderError)) run1_viewer =
     ''/a/b/broken.json'' \<and>
   start (file_env ''/a/b/broken.json'' (Inl LoaderError)) run1_viewer =
     (Some LoaderError, run1_viewer\<lparr>last_path := ''/a/b/broken.json''\<rparr>)"
proof -
  let ?e = "file_env ''/a/b/broken.json'' (Inl LoaderError)"
  have d: "file_dialog ?e run1_viewer = ''/a/b/broken.json''"
    by (simp add: file_dialog_def file_env_def)
  have n: "''/a/b/broken.json'' \<noteq> []" by simp
  have l: "load_datalogger_file ?e (Path ''/a/b/broken.json'') = Inl LoaderError"
    by (simp add: file_env_def)
  obtain r s' where run: "start ?e run1_viewer = (r, s')"
    by (cases "start ?e run1_viewer")
  from load_error_changes_last_path_only [OF d n l run] run d show ?thesis
    by simp
qed

text \<open>
  Claim C3 as stated counts Last Path among the state that is unchanged. With
  \<^verbatim>\<open>run1.json\<close> loaded and a second file on which the loader raises, the error leaves
  \<open>start\<close> and Last Path is no longer the one from before the call.
\<close>

theorem load_error_last_path_counterexample:
  "fst (start (file_env ''/a/b/broken.json'' (Inl LoaderError)) run1_viewer) = Some LoaderError \<and>
   last_path (snd (start (file_env ''/a/b/broken.json'' (Inl LoaderError)) run1_viewer)) \<noteq>
     last_path run1_viewer"
  by (simp add: start_def file_dialog_def file_env_def run1_viewer_def)

subsection \<open>The displayed header\<close>

text \<open>
  Claim C6, as amended. For a successful load whose header contains at least one newline
  character, the displayed header text is the loaded header with its final line removed:
  it is \<open>header_without_final_line header\<close>, and when the header is cut at its last
  newline it is the part before that newline. The header of three lines \<^verbatim>\<open>A\<close>,
  \<^verbatim>\<open>B\<close>, \<^verbatim>\<open>C\<close> is displayed as the two lines \<^verbatim>\<open>A\<close>, \<^verbatim>\<open>B\<close>.
\<close>

theorem header_final_line_removed:
  assumes "file_dialog e s = file_name" and "file_name \<noteq> []"
    and "load_datalogger_file e (Path file_name) = Inr (header, data, meta)"
    and "newline \<in> set header"
    and "start e s = (r, s')"
  shows "r = None \<and> leHeader s' = header_without_final_line header \<and>
    (header = before @ newline # final \<and> newline \<notin> set final \<longrightarrow> leHeader s' = before)"
proof -
  have r: "r = None" and h: "leHeader s' = hd (rsplit1 header newline)"
    using start_loaded_common [OF assms(1,2,3,5)] by simp_all
  have w: "hd (rsplit1 header newline) = header_without_final_line header"
    using assms(4) by (simp add: header_cut header_without_final_line_def)
  have b: "hd (rsplit1 header newline) = before"
    if "header = before @ newline # final \<and> newline \<notin> set final"
    using that by (simp add: rsplit1_cut)
  from h w have "leHeader s' = header_without_final_line header" by simp
  moreover
  have "header = before @ newline # final \<and> newline \<notin> set final \<longrightarrow> leHeader s' = before"
  proof
    assume "header = before @ newline # final \<and> newline \<notin> set final"
    then have "hd (rsplit1 header newline) = before" by (rule b)
    with h show "leHeader s' = before" by simp
  qed
  ultimately show ?thesis using r by simp
qed

theorem header_final_line_removed_witness:
  "file_dialog (file_env ''/a/b/run1.json'' (Inr (''A\<newline>B\<newline>C'', run1_data, run1_meta)))
     fresh_viewer = ''/a/b/run1.json'' \<and>
   newline \<in> set ''A\<newline>B\<newline>C'' \<and>
   ''A\<newline>B\<newline>C'' = ''A\<newline>B'' @ newline # ''C'' \<and> newline \<notin> set ''C'' \<and>
   header_without_final_line ''A\<newline>B\<newline>C'' = ''A\<newline>B'' \<and>
   start (file_env ''/a/b/run1.json'' (Inr (''A\<newline>B\<newline>C'', run1_data, run1_meta)))
     fresh_viewer = (None, run1_viewer) \<and>
   leHeader run1_viewer = ''A\<newline>B''"
proof -
  let ?e = "file_env ''/a/b/run1.json'' (Inr (''A\<newline>B\<newline>C'', run1_data, run1_meta))"
  have d: "file_dialog ?e fresh_viewer = ''/a/b/run1.json''"
    by (simp add: file_dialog_def file_env_def)
  have n: "''/a/b/run1.json'' \<noteq> []" by simp
  have l: "load_datalogger_file ?e (Path ''/a/b/run1.json'') =
      Inr (''A\<newline>B\<newline>C'', run1_data, run1_meta)"
    by (simp add: file_env_def)
  have c: "newline \<in> set ''A\<newline>B\<newline>C''" by (simp add: newline_def)
  have w: "header_without_final_line ''A\<newline>B\<newline>C'' = ''A\<newline>B''"
    by (simp add: header_without_final_line_def newline_def)
  have run: "start ?e fresh_viewer = (None, run1_viewer)"
    by (simp add: run_defs run1_data_def run1_meta_def run1_viewer_def str_nat.simps)
  from header_final_line_removed [OF d n l c run, of "''A\<newline>B''" "''C''"] d c w run
  show ?thesis by (simp add: newline_def)
qed

text \<open>
  Claim C6 as stated speaks of every successful load. A header of the single line
  \<^verbatim>\<open>A\<close> is displayed whole, while that header with its final line removed is empty.
\<close>

theorem one_line_header_counterexample:
  "fst (start (file_env ''/a/b/run2.json'' (Inr (''A'', [], []))) fresh_viewer) = None \<and>
   leHeader (snd (start (file_env ''/a/b/run2.json'' (Inr (''A'', [], []))) fresh_viewer)) = ''A'' \<and>
   header_without_final_line ''A'' = []"
  by (simp add: run_defs header_without_final_line_def)

text \<open>
  Claim C9. For a successful load whose header contains no newline character, the
  displayed header text is the entire header, unchanged: \<^verbatim>\<open>rsplit\<close> finds nothing to
  cut and returns the string itself.
\<close>

theorem one_line_header_kept:
  assumes "file_dialog e s = file_name" and "file_name \<noteq> []"
    and "load_datalogger_file e (Path file_name) = Inr (header, data, meta)"
    and "newline \<notin> set header"
    and "start e s = (r, s')"
  shows "r = None \<and> leHeader s' = header"
  using start_loaded_common [OF assms(1,2,3,5)] assms(4) by (simp add: rsplit1_whole)

theorem one_line_header_kept_witness:
  "file_dialog (file_env ''/a/b/run2.json'' (Inr (''A'', [], []))) fresh_viewer = ''/a/b/run2.json'' \<and>
   newline \<notin> set ''A'' \<and>
   start (file_env ''/a/b/run2.json'' (Inr (''A'', [], []))) fresh_viewer =
     (None, fresh_viewer\<lparr>last_path := ''/a/b/run2.json'', leHeader := ''A'',
        leSavedName := ''run2.json'', emitted := [Update_plots, Started]\<rparr>)"
proof -
  let ?e = "file_env ''/a/b/run2.json'' (Inr (''A'', [], []))"
  have d: "file_dialog ?e fresh_viewer = ''/a/b/run2.json''"
    by (simp add: file_dialog_def file_env_def)
  have n: "''/a/b/run2.json'' \<noteq> []" by simp
  have l: "load_datalogger_file ?e (Path ''/a/b/run2.json'') = Inr (''A'', [], [])"
    by (simp add: file_env_def)
  have c: "newline \<notin> set ''A''" by (simp add: newline_def)
  have run: "start ?e fresh_viewer =
     (None, fresh_viewer\<lparr>last_path := ''/a/b/run2.json'', leHeader := ''A'',
        leSavedName := ''run2.json'', emitted := [Update_plots, Started]\<rparr>)"
    by (simp add: run_defs)
  from one_line_header_kept [OF d n l c run] d c run
  show ?thesis by simp
qed

subsection \<open>Configuration and saved name\<close>

text \<open>
  Claim C7. For a successful load whose metadata has no key \<^verbatim>\<open>"configuration"\<close>, the
  configuration restored into the window is the empty mapping; when the metadata has the
  key, it is the value stored under it, verbatim. (What \<open>set_configuration\<close> does with its
  argument is taken from the spec; that the argument is
  \<^verbatim>\<open>meta.get("configuration", {})\<close> is line 100 of the source.)
\<close>

theorem configuration_restored:
  assumes "file_dialog e s = file_name" and "file_name \<noteq> []"
    and "load_datalogger_file e (Path file_name) = Inr (header, data, meta)"
    and "start e s = (r, s')"
  shows "r = None \<and>
    (''configuration'' \<notin> set (dict_keys meta) \<longrightarrow> configuration s' = JObj []) \<and>
    (dict_getitem meta ''configuration'' = Inr c \<longrightarrow> configuration s' = c)"
proof -
  have r: "r = None"
    and c: "configuration s' = dict_get meta ''configuration'' (JObj [])"
    using start_loaded_common [OF assms] by simp_all
  have "dict_get meta ''configuration'' (JObj []) = JObj []"
    if "''configuration'' \<notin> set (dict_keys meta)"
  proof -
    from that have "map_of meta ''configuration'' = None"
      by (simp add: dict_keys_def map_of_eq_None_iff)
    then show ?thesis by (simp add: dict_get_def)
  qed
  moreover have "dict_get meta ''configuration'' (JObj []) = c"
    if "dict_getitem meta ''configuration'' = Inr c"
    using that by (simp add: dict_get_def dict_getitem_def split: option.splits)
  ultimately show ?thesis using r c by simp
qed

text \<open>The file of the example, which has a configuration, and a file with empty metadata.\<close>

theorem configuration_restored_witness:
  "file_dialog (file_env ''/a/b/run1.json'' (Inr (''A\<newline>B\<newline>C'', run1_data, run1_meta)))
     fresh_viewer = ''/a/b/run1.json'' \<and>
   dict_getitem run1_meta ''configuration'' = Inr (JObj [(''trigger_type'', JStr ''timer'')]) \<and>
   start (file_env ''/a/b/run1.json'' (Inr (''A\<newline>B\<newline>C'', run1_data, run1_meta)))
     fresh_viewer = (None, run1_viewer) \<and>
   configuration run1_viewer = JObj [(''trigger_type'', JStr ''timer'')] \<and>
   file_dialog (file_env ''/a/b/run2.json'' (Inr (''A'', [], []))) run1_viewer =
     ''/a/b/run2.json'' \<and>
   ''configuration'' \<notin> set (dict_keys ([] :: (string, json) dict)) \<and>
   fst (start (file_env ''/a/b/run2.json'' (Inr (''A'', [], []))) run1_viewer) = None \<and>
   configuration (snd (start (file_env ''/a/b/run2.json'' (Inr (''A'', [], []))) run1_viewer)) =
     JObj []"
proof -
  let ?e1 = "file_env ''/a/b/run1.json'' (Inr (''A\<newline>B\<newline>C'', run1_data, run1_meta))"
  let ?e2 = "file_env ''/a/b/run2.json'' (Inr (''A'', [], []))"
  have d1: "file_dialog ?e1 fresh_viewer = ''/a/b/run1.json''"
    by (simp add: file_dialog_def file_env_def)
  have n1: "''/a/b/run1.json'' \<noteq> []" by simp
  have l1: "load_datalogger_file ?e1 (Path ''/a/b/run1.json'') =
      Inr (''A\<newline>B\<newline>C'', run1_data, run1_meta)"
    by (simp add: file_env_def)
  have c1: "dict_getitem run1_meta ''configuration'' =
      Inr (JObj [(''trigger_type'', JStr ''timer'')])"
    by (simp add: dict_getitem_def run1_meta_def)
  have run1: "start ?e1 fresh_viewer = (None, run1_viewer)"
    by (simp add: run_defs run1_data_def run1_meta_def run1_viewer_def str_nat.simps)
  have d2: "file_dialog ?e2 run1_viewer = ''/a/b/run2.json''"
    by (simp add: file_dialog_def file_env_def)
  have n2: "''/a/b/run2.json'' \<noteq> []" by simp
  have l2: "load_datalogger_file ?e2 (Path ''/a/b/run2.json'') = Inr (''A'', [], [])"
    by (simp add: file_env_def)
  have c2: "''configuration'' \<notin> set (dict_keys ([] :: (string, json) dict))"
    by (simp add: dict_keys_def)
  obtain r s' where run2: "start ?e2 run1_viewer = (r, s')"
    by (cases "start ?e2 run1_viewer")
  from configuration_restored [OF d1 n1 l1 run1, of "JObj [(''trigger_type'', JStr ''timer'')]"]
    configuration_restored [OF d2 n2 l2 run2] d1 c1 run1 d2 c2 run2
  show ?thesis by simp
qed

text \<open>
  Claim C8. For a successful load the "saved name" label shows \<^verbatim>\<open>path.name\<close> of the
  selected file name: it contains no slash, and when the file name is a directory part, a
  slash and a last component (not empty, not \<^verbatim>\<open>"."\<close>, without a slash), the label is
  that last component. \<^verbatim>\<open>/a/b/run1.json\<close> gives \<^verbatim>\<open>run1.json\<close>.
\<close>

theorem saved_name_is_file_name:
  assumes "file_dialog e s = file_name" and "file_name \<noteq> []"
    and "load_datalogger_file e (Path file_name) = Inr (header, data, meta)"
    and "start e s = (r, s')"
  shows "r = None \<and> leSavedName s' = name (Path file_name) \<and>
    CHR ''/'' \<notin> set (leSavedName s') \<and>
    (file_name = dir @ ''/'' @ base \<and> CHR ''/'' \<notin> set base \<and> base \<noteq> [] \<and> base \<noteq> ''.'' \<longrightarrow>
      leSavedName s' = base)"
proof -
  have r: "r = None" and n: "leSavedName s' = name (Path file_name)"
    using start_loaded_common [OF assms] by simp_all
  have "CHR ''/'' \<notin> set (leSavedName s')"
    unfolding n by (rule name_no_slash)
  moreover have "file_name = dir @ ''/'' @ base \<and> CHR ''/'' \<notin> set base \<and> base \<noteq> [] \<and>
      base \<noteq> ''.'' \<longrightarrow> leSavedName s' = base"
  proof
    assume a: "file_name = dir @ ''/'' @ base \<and> CHR ''/'' \<notin> set base \<and> base \<noteq> [] \<and>
      base \<noteq> ''.''"
    then have "name (Path (dir @ ''/'' @ base)) = base"
      by (intro name_base) simp_all
    with a n show "leSavedName s' = base" by simp
  qed
  ultimately show ?thesis using r n by simp
qed

theorem saved_name_is_file_name_witness:
  "file_dialog (file_env ''/a/b/run1.json'' (Inr (''A\<newline>B\<newline>C'', run1_data, run1_meta)))
     fresh_viewer = ''/a/b/run1.json'' \<and>
   ''/a/b/run1.json'' = ''/a/b'' @ ''/'' @ ''run1.json'' \<and>
   CHR ''/'' \<notin> set ''run1.json'' \<and>
   start (file_env ''/a/b/run1.json'' (Inr (''A\<newline>B\<newline>C'', run1_data, run1_meta)))
     fresh_viewer = (None, run1_viewer) \<and>
   leSavedName run1_viewer = ''run1.json''"
proof -
  let ?e1 = "file_env ''/a/b/run1.json'' (Inr (''A\<newline>B\<newline>C'', run1_data, run1_meta))"
  have d1: "file_dialog ?e1 fresh_viewer = ''/a/b/run1.json''"
    by (simp add: file_dialog_def file_env_def)
  have n1: "''/a/b/run1.json'' \<noteq> []" by simp
  have l1: "load_datalogger_file ?e1 (Path ''/a/b/run1.json'') =
      Inr (''A\<newline>B\<newline>C'', run1_data, run1_meta)"
    by (simp add: file_env_def)
  have run1: "start ?e1 fresh_viewer = (None, run1_viewer)"
    by (simp add: run_defs run1_data_def run1_meta_def run1_viewer_def str_nat.simps)
  have parts: "''/a/b/run1.json'' = ''/a/b'' @ ''/'' @ ''run1.json'' \<and>
      CHR ''/'' \<notin> set ''run1.json'' \<and> ''run1.json'' \<noteq> [] \<and> ''run1.json'' \<noteq> ''.''"
    by simp
  from saved_name_is_file_name [OF d1 n1 l1 run1, of "''/a/b''" "''run1.json''"] parts
  have "leSavedName run1_viewer = ''run1.json''" by blast
  with d1 run1 show ?thesis by simp
qed

subsection \<open>The derived hours column\<close>

lemma count_list_distinct: "distinct xs \<Longrightarrow> x \<in> set xs \<Longrightarrow> count_list xs x = 1"
  by (induction xs) (auto simp: count_list_0_iff)

lemma dict_getitem_append_new:
  "k \<notin> set (dict_keys d) \<Longrightarrow> dict_getitem (d @ [(k, v)]) k = Inr v"
  by (simp add: dict_getitem_def dict_keys_def map_of_eq_None_iff [THEN iffD2] map_add_def)

text \<open>
  Claim C1. For a successful load whose data has the key \<^verbatim>\<open>"time"\<close> but not the key
  \<^verbatim>\<open>"time_h"\<close>, \<open>start\<close> returns and afterwards \<^verbatim>\<open>"time_h"\<close> is in the Variable Set
  (it is the last entry of \<open>variables\<close> and a key of the samples mapping), the
  \<^verbatim>\<open>"time_h"\<close> samples are the \<^verbatim>\<open>"time"\<close> samples divided elementwise by 3600, and
  the Units Mapping has \<^verbatim>\<open>"h"\<close> for \<^verbatim>\<open>"time_h"\<close>.
\<close>

theorem time_h_derived:
  assumes "file_dialog e s = file_name" and "file_name \<noteq> []"
    and "load_datalogger_file e (Path file_name) = Inr (header, data, meta)"
    and "''time'' \<in> set (dict_keys data)" and "''time_h'' \<notin> set (dict_keys data)"
    and "start e s = (r, s')"
  shows "r = None \<and>
    ''time_h'' \<in> set (variables s') \<and> last (variables s') = ''time_h'' \<and>
    ''time_h'' \<in> set (dict_keys (lists s')) \<and>
    (\<exists>ts. dict_getitem data ''time'' = Inr ts \<and>
       dict_getitem (lists s') ''time_h'' = Inr (map (\<lambda>x. x / 3600) ts)) \<and>
    dict_getitem (units s') ''time_h'' = Inr ''h''"
proof -
  have r: "r = None"
    using start_loaded_common(1) [OF assms(1,2,3,6)] .
  from start_loaded_derived [OF assms] obtain ts
    where ts: "dict_getitem data ''time'' = Inr ts"
      and l: "lists s' = data @ [(''time_h'', map (\<lambda>x. x / 3600) ts)]"
      and v: "variables s' = variables s @ [''time_h'']"
      and u: "units s' = dict_setitem (units s) ''time_h'' ''h''"
    by blast
  have "dict_getitem (lists s') ''time_h'' = Inr (map (\<lambda>x. x / 3600) ts)"
    unfolding l using assms(5) by (rule dict_getitem_append_new)
  moreover have "''time_h'' \<in> set (dict_keys (lists s'))"
    by (simp add: l dict_keys_def)
  moreover have "dict_getitem (units s') ''time_h'' = Inr ''h''"
    unfolding u by (rule dict_getitem_setitem)
  ultimately show ?thesis using r ts v by simp
qed

text \<open>Loading the file of the example into the fresh window gives the loaded window.\<close>

theorem time_h_derived_witness:
  "file_dialog (file_env ''/a/b/run1.json'' (Inr (''A\<newline>B\<newline>C'', run1_data, run1_meta)))
     fresh_viewer = ''/a/b/run1.json'' \<and>
   ''time'' \<in> set (dict_keys run1_data) \<and> ''time_h'' \<notin> set (dict_keys run1_data) \<and>
   start (file_env ''/a/b/run1.json'' (Inr (''A\<newline>B\<newline>C'', run1_data, run1_meta)))
     fresh_viewer = (None, run1_viewer) \<and>
   ''time_h'' \<in> set (variables run1_viewer) \<and>
   dict_getitem run1_data ''time'' = Inr [0, 3600, 7200] \<and>
   dict_getitem (lists run1_viewer) ''time_h'' = Inr [0, 1, 2] \<and>
   dict_getitem (units run1_viewer) ''time_h'' = Inr ''h''"
proof -
  let ?e1 = "file_env ''/a/b/run1.json'' (Inr (''A\<newline>B\<newline>C'', run1_data, run1_meta))"
  have d1: "file_dialog ?e1 fresh_viewer = ''/a/b/run1.json''"
    by (simp add: file_dialog_def file_env_def)
  have n1: "''/a/b/run1.json'' \<noteq> []" by simp
  have l1: "load_datalogger_file ?e1 (Path ''/a/b/run1.json'') =
      Inr (''A\<newline>B\<newline>C'', run1_data, run1_meta)"
    by (simp add: file_env_def)
  have t1: "''time'' \<in> set (dict_keys run1_data)"
    and h1: "''time_h'' \<notin> set (dict_keys run1_data)"
    by (simp_all add: dict_keys_def run1_data_def)
  have run1: "start ?e1 fresh_viewer = (None, run1_viewer)"
    by (simp add: run_defs run1_data_def run1_meta_def run1_viewer_def str_nat.simps)
  have ts: "dict_getitem run1_data ''time'' = Inr [0, 3600, 7200]"
    by (simp add: dict_getitem_def run1_data_def)
  from time_h_derived [OF d1 n1 l1 t1 h1 run1] ts
  have "''time_h'' \<in> set (variables run1_viewer) \<and>
    dict_getitem (lists run1_viewer) ''time_h'' = Inr [0, 1, 2] \<and>
    dict_getitem (units run1_viewer) ''time_h'' = Inr ''h''"
    by simp
  with d1 t1 h1 run1 ts show ?thesis by simp
qed

text \<open>
  Claim C10. For a successful load in which the derivation occurs, \<^verbatim>\<open>"time_h"\<close> is the
  last key of the samples mapping, so the displayed count is the length of the derived
  \<^verbatim>\<open>"time_h"\<close> sequence, which is the length of the loaded \<^verbatim>\<open>"time"\<close> sequence.
\<close>

theorem count_after_derivation:
  assumes "file_dialog e s = file_name" and "file_name \<noteq> []"
    and "load_datalogger_file e (Path file_name) = Inr (header, data, meta)"
    and "''time'' \<in> set (dict_keys data)" and "''time_h'' \<notin> set (dict_keys data)"
    and "start e s = (r, s')"
  shows "r = None \<and> last (dict_keys (lists s')) = ''time_h'' \<and>
    (\<exists>ts hs. dict_getitem data ''time'' = Inr ts \<and>
       dict_getitem (lists s') ''time_h'' = Inr hs \<and>
       lbCount s' = ''Data points: '' @ str_nat (length hs) \<and>
       length hs = length ts)"
proof -
  have r: "r = None"
    using start_loaded_common(1) [OF assms(1,2,3,6)] .
  from start_loaded_derived [OF assms] obtain ts
    where ts: "dict_getitem data ''time'' = Inr ts"
      and l: "lists s' = data @ [(''time_h'', map (\<lambda>x. x / 3600) ts)]"
      and c: "lbCount s' = ''Data points: '' @ str_nat (length ts)"
    by blast
  let ?hs = "map (\<lambda>x. x / 3600) ts"
  have "dict_getitem (lists s') ''time_h'' = Inr ?hs"
    unfolding l using assms(5) by (rule dict_getitem_append_new)
  moreover have "lbCount s' = ''Data points: '' @ str_nat (length ?hs)"
    using c by simp
  moreover have "length ?hs = length ts" by simp
  ultimately have "\<exists>ts hs. dict_getitem data ''time'' = Inr ts \<and>
       dict_getitem (lists s') ''time_h'' = Inr hs \<and>
       lbCount s' = ''Data points: '' @ str_nat (length hs) \<and>
       length hs = length ts"
    using ts by blast
  moreover have "last (dict_keys (lists s')) = ''time_h''"
    by (simp add: l dict_keys_def)
  ultimately show ?thesis using r by blast
qed

theorem count_after_derivation_witness:
  "file_dialog (file_env ''/a/b/run1.json'' (Inr (''A\<newline>B\<newline>C'', run1_data, run1_meta)))
     fresh_viewer = ''/a/b/run1.json'' \<and>
   ''time'' \<in> set (dict_keys run1_data) \<and> ''time_h'' \<notin> set (dict_keys run1_data) \<and>
   start (file_env ''/a/b/run1.json'' (Inr (''A\<newline>B\<newline>C'', run1_data, run1_meta)))
     fresh_viewer = (None, run1_viewer) \<and>
   last (dict_keys (lists run1_viewer)) = ''time_h'' \<and>
   lbCount run1_viewer = ''Data points: 3''"
proof -
  let ?e1 = "file_env ''/a/b/run1.json'' (Inr (''A\<newline>B\<newline>C'', run1_data, run1_meta))"
  have d1: "file_dialog ?e1 fresh_viewer = ''/a/b/run1.json''"
    by (simp add: file_dialog_def file_env_def)
  have n1: "''/a/b/run1.json'' \<noteq> []" by simp
  have l1: "load_datalogger_file ?e1 (Path ''/a/b/run1.json'') =
      Inr (''A\<newline>B\<newline>C'', run1_data, run1_meta)"
    by (simp add: file_env_def)
  have t1: "''time'' \<in> set (dict_keys run1_data)"
    and h1: "''time_h'' \<notin> set (dict_keys run1_data)"
    by (simp_all add: dict_keys_def run1_data_def)
  have run1: "start ?e1 fresh_viewer = (None, run1_viewer)"
    by (simp add: run_defs run1_data_def run1_meta_def run1_viewer_def str_nat.simps)
  have k: "last (dict_keys (lists run1_viewer)) = ''time_h''"
    using count_after_derivation [OF d1 n1 l1 t1 h1 run1] by blast
  have c: "lbCount run1_viewer = ''Data points: 3''"
    by (simp add: run1_viewer_def)
  from d1 t1 h1 run1 k c show ?thesis by simp
qed

text \<open>
  Claim C4. \<open>start\<close> performs the derivation exactly when the loaded data has
  \<^verbatim>\<open>"time"\<close> and does not have \<^verbatim>\<open>"time_h"\<close>: then \<^verbatim>\<open>"time_h"\<close> is appended to
  \<open>variables\<close> and to the keys of the samples mapping. When the loaded data already has
  \<^verbatim>\<open>"time_h"\<close>, \<open>start\<close> neither duplicates nor overwrites it: \<open>variables\<close> and the units
  are as before, the samples mapping is the loaded data, and among its keys (distinct, as
  the keys of a dict are) \<^verbatim>\<open>"time_h"\<close> occurs exactly once. When the loaded data has no
  \<^verbatim>\<open>"time"\<close>, nothing is added either: the samples mapping is the loaded data, and
  \<open>variables\<close> and the units are as before.
\<close>

theorem time_h_derived_exactly_when:
  assumes "file_dialog e s = file_name" and "file_name \<noteq> []"
    and "load_datalogger_file e (Path file_name) = Inr (header, data, meta)"
    and "start e s = (r, s')"
  shows "r = None \<and>
    (''time'' \<in> set (dict_keys data) \<and> ''time_h'' \<notin> set (dict_keys data) \<longrightarrow>
       variables s' = variables s @ [''time_h''] \<and>
       dict_keys (lists s') = dict_keys data @ [''time_h'']) \<and>
    (''time_h'' \<in> set (dict_keys data) \<longrightarrow>
       variables s' = variables s \<and> units s' = units s \<and> lists s' = data \<and>
       (distinct (dict_keys data) \<longrightarrow> count_list (dict_keys (lists s')) ''time_h'' = 1)) \<and>
    (''time'' \<notin> set (dict_keys data) \<longrightarrow>
       variables s' = variables s \<and> units s' = units s \<and> lists s' = data)"
proof -
  have r: "r = None"
    using start_loaded_common(1) [OF assms] .
  have yes: "variables s' = variables s @ [''time_h''] \<and>
      dict_keys (lists s') = dict_keys data @ [''time_h'']"
    if "''time'' \<in> set (dict_keys data) \<and> ''time_h'' \<notin> set (dict_keys data)"
  proof -
    from that have t: "''time'' \<in> set (dict_keys data)"
      and h: "''time_h'' \<notin> set (dict_keys data)"
      by simp_all
    from start_loaded_derived [OF assms(1,2,3) t h assms(4)]
    show ?thesis by (auto simp: dict_keys_def)
  qed
  have no: "variables s' = variables s \<and> units s' = units s \<and> lists s' = data"
    if "''time'' \<notin> set (dict_keys data) \<or> ''time_h'' \<in> set (dict_keys data)"
    using start_loaded_plain(1,2,3) [OF assms(1,2,3) that assms(4)] by simp
  have once: "count_list (dict_keys (lists s')) ''time_h'' = 1"
    if "''time_h'' \<in> set (dict_keys data)" "distinct (dict_keys data)"
    using that no by (simp add: count_list_distinct)
  from r yes no once show ?thesis by blast
qed

text \<open>
  The file of the example on the fresh window (derivation); a file that brings its own
  \<^verbatim>\<open>"time_h"\<close>, in minutes for the sake of the example, on the loaded window; and a
  file without \<^verbatim>\<open>"time"\<close> on the fresh window.
\<close>

theorem time_h_derived_exactly_when_witness:
  "file_dialog (file_env ''/a/b/run1.json'' (Inr (''A\<newline>B\<newline>C'', run1_data, run1_meta)))
     fresh_viewer = ''/a/b/run1.json'' \<and>
   ''time'' \<in> set (dict_keys run1_data) \<and> ''time_h'' \<notin> set (dict_keys run1_data) \<and>
   start (file_env ''/a/b/run1.json'' (Inr (''A\<newline>B\<newline>C'', run1_data, run1_meta)))
     fresh_viewer = (None, run1_viewer) \<and>
   variables run1_viewer = variables fresh_viewer @ [''time_h''] \<and>
   dict_keys (lists run1_viewer) = dict_keys run1_data @ [''time_h''] \<and>
   file_dialog (file_env ''/a/b/run3.json''
     (Inr (''A'', [(''time'', [0, 3600]), (''time_h'', [0, 60])], []))) run1_viewer =
     ''/a/b/run3.json'' \<and>
   ''time_h'' \<in> set (dict_keys [(''time'', [0, 3600 :: real]), (''time_h'', [0, 60])]) \<and>
   distinct (dict_keys [(''time'', [0, 3600 :: real]), (''time_h'', [0, 60])]) \<and>
   start (file_env ''/a/b/run3.json''
     (Inr (''A'', [(''time'', [0, 3600]), (''time_h'', [0, 60])], []))) run1_viewer =
     (None, run1_viewer\<lparr>lists := [(''time'', [0, 3600]), (''time_h'', [0, 60])],
        last_path := ''/a/b/run3.json'', configuration := JObj [], leHeader := ''A'',
        leSavedName := ''run3.json'', lbCount := ''Data points: 2'',
        emitted := [Update_plots, Started, Update_plots, Started]\<rparr>) \<and>
   count_list (dict_keys [(''time'', [0, 3600 :: real]), (''time_h'', [0, 60])]) ''time_h'' = 1 \<and>
   file_dialog (file_env ''/a/b/run4.json'' (Inr (''A'', [(''x'', [5, 6, 7])], []))) fresh_viewer =
     ''/a/b/run4.json'' \<and>
   ''time'' \<notin> set (dict_keys [(''x'', [5, 6, 7 :: real])]) \<and>
   start (file_env ''/a/b/run4.json'' (Inr (''A'', [(''x'', [5, 6, 7])], []))) fresh_viewer =
     (None, fresh_viewer\<lparr>lists := [(''x'', [5, 6, 7])], last_path := ''/a/b/run4.json'',
        leHeader := ''A'', leSavedName := ''run4.json'', lbCount := ''Data points: 3'',
        emitted := [Update_plots, Started]\<rparr>)"
proof -
  let ?e1 = "file_env ''/a/b/run1.json'' (Inr (''A\<newline>B\<newline>C'', run1_data, run1_meta))"
  let ?d3 = "[(''time'', [0, 3600 :: real]), (''time_h'', [0, 60])]"
  let ?e3 = "file_env ''/a/b/run3.json'' (Inr (''A'', ?d3, []))"
  let ?v3 = "run1_viewer\<lparr>lists := ?d3,
        last_path := ''/a/b/run3.json'', configuration := JObj [], leHeader := ''A'',
        leSavedName := ''run3.json'', lbCount := ''Data points: 2'',
        emitted := [Update_plots, Started, Update_plots, Started]\<rparr>"
  let ?d4 = "[(''x'', [5, 6, 7 :: real])]"
  let ?e4 = "file_env ''/a/b/run4.json'' (Inr (''A'', ?d4, []))"
  let ?v4 = "fresh_viewer\<lparr>lists := ?d4, last_path := ''/a/b/run4.json'',
        leHeader := ''A'', leSavedName := ''run4.json'', lbCount := ''Data points: 3'',
        emitted := [Update_plots, Started]\<rparr>"
  have d1: "file_dialog ?e1 fresh_viewer = ''/a/b/run1.json''"
    by (simp add: file_dialog_def file_env_def)
  have n1: "''/a/b/run1.json'' \<noteq> []" by simp
  have l1: "load_datalogger_file ?e1 (Path ''/a/b/run1.json'') =
      Inr (''A\<newline>B\<newline>C'', run1_data, run1_meta)"
    by (simp add: file_env_def)
  have c1: "''time'' \<in> set (dict_keys run1_data) \<and> ''time_h'' \<notin> set (dict_keys run1_data)"
    by (simp add: dict_keys_def run1_data_def)
  have run1: "start ?e1 fresh_viewer = (None, run1_viewer)"
    by (simp add: run_defs run1_data_def run1_meta_def run1_viewer_def str_nat.simps)
  have d3: "file_dialog ?e3 run1_viewer = ''/a/b/run3.json''"
    by (simp add: file_dialog_def file_env_def)
  have n3: "''/a/b/run3.json'' \<noteq> []" by simp
  have l3: "load_datalogger_file ?e3 (Path ''/a/b/run3.json'') = Inr (''A'', ?d3, [])"
    by (simp add: file_env_def)
  have c3: "''time_h'' \<in> set (dict_keys ?d3)" and k3: "distinct (dict_keys ?d3)"
    by (simp_all add: dict_keys_def)
  have run3: "start ?e3 run1_viewer = (None, ?v3)"
    by (simp add: run_defs run1_viewer_def str_nat.simps)
  have d4: "file_dialog ?e4 fresh_viewer = ''/a/b/run4.json''"
    by (simp add: file_dialog_def file_env_def)
  have n4: "''/a/b/run4.json'' \<noteq> []" by simp
  have l4: "load_datalogger_file ?e4 (Path ''/a/b/run4.json'') = Inr (''A'', ?d4, [])"
    by (simp add: file_env_def)
  have c4: "''time'' \<notin> set (dict_keys ?d4)"
    by (simp add: dict_keys_def)
  have run4: "start ?e4 fresh_viewer = (None, ?v4)"
    by (simp add: run_defs str_nat.simps)
  from time_h_derived_exactly_when [OF d1 n1 l1 run1] c1
  have w1: "variables run1_viewer = variables fresh_viewer @ [''time_h''] \<and>
      dict_keys (lists run1_viewer) = dict_keys run1_data @ [''time_h'']"
    by blast
  from time_h_derived_exactly_when [OF d3 n3 l3 run3] c3 k3
  have "count_list (dict_keys (lists ?v3)) ''time_h'' = 1"
    by blast
  then have w3: "count_list (dict_keys ?d3) ''time_h'' = 1"
    by simp
  from d1 c1 run1 w1 d3 c3 k3 run3 w3 d4 c4 run4 show ?thesis
    by blast
qed

subsection \<open>The count of data points\<close>

text \<open>
  Claim C2. The variable names of a load are the keys of the samples mapping, in its
  order: the source takes the last of them with \<^verbatim>\<open>list(self.lists).pop()\<close>. For a
  successful load \<open>start\<close> returns without an exception. When there is a variable name,
  the count label shows the length of the sample sequence of the last one; when there is
  none, the count label is left as it was.
\<close>

theorem data_point_count:
  assumes "file_dialog e s = file_name" and "file_name \<noteq> []"
    and "load_datalogger_file e (Path file_name) = Inr (header, data, meta)"
    and "start e s = (r, s')"
  shows "r = None \<and>
    (dict_keys (lists s') \<noteq> [] \<longrightarrow>
       (\<exists>v. dict_getitem (lists s') (last (dict_keys (lists s'))) = Inr v \<and>
          lbCount s' = ''Data points: '' @ str_nat (length v))) \<and>
    (dict_keys (lists s') = [] \<longrightarrow> lbCount s' = lbCount s)"
proof -
  have r: "r = None"
    using start_loaded_common(1) [OF assms] .
  show ?thesis
  proof (cases "''time'' \<in> set (dict_keys data) \<and> ''time_h'' \<notin> set (dict_keys data)")
    case True
    then have t: "''time'' \<in> set (dict_keys data)"
      and h: "''time_h'' \<notin> set (dict_keys data)"
      by simp_all
    from start_loaded_derived [OF assms(1,2,3) t h assms(4)] obtain ts
      where l: "lists s' = data @ [(''time_h'', map (\<lambda>x. x / 3600) ts)]"
        and c: "lbCount s' = ''Data points: '' @ str_nat (length ts)"
      by blast
    have k: "last (dict_keys (lists s')) = ''time_h''"
      by (simp add: l dict_keys_def)
    have "dict_getitem (lists s') ''time_h'' = Inr (map (\<lambda>x. x / 3600) ts)"
      unfolding l using h by (rule dict_getitem_append_new)
    with k c have "\<exists>v. dict_getitem (lists s') (last (dict_keys (lists s'))) = Inr v \<and>
          lbCount s' = ''Data points: '' @ str_nat (length v)"
      by simp
    moreover have "dict_keys (lists s') \<noteq> []"
      by (simp add: l dict_keys_def)
    ultimately show ?thesis using r by blast
  next
    case False
    then have plain: "''time'' \<notin> set (dict_keys data) \<or> ''time_h'' \<in> set (dict_keys data)"
      by blast
    note p = start_loaded_plain [OF assms(1,2,3) plain assms(4)]
    show ?thesis
    proof (cases "data = []")
      case True
      with p(1,4) r show ?thesis by (simp add: dict_keys_def)
    next
      case False
      with p(1,5) r show ?thesis by (simp add: dict_keys_def)
    qed
  qed
qed

text \<open>
  A file without \<^verbatim>\<open>"time"\<close> whose last variable has three samples, and an empty file
  loaded into the loaded window, whose count label stays.
\<close>

theorem data_point_count_witness:
  "file_dialog (file_env ''/a/b/run4.json'' (Inr (''A'', [(''x'', [5, 6, 7])], []))) fresh_viewer =
     ''/a/b/run4.json'' \<and>
   start (file_env ''/a/b/run4.json'' (Inr (''A'', [(''x'', [5, 6, 7])], []))) fresh_viewer =
     (None, fresh_viewer\<lparr>lists := [(''x'', [5, 6, 7])], last_path := ''/a/b/run4.json'',
        leHeader := ''A'', leSavedName := ''run4.json'', lbCount := ''Data points: 3'',
        emitted := [Update_plots, Started]\<rparr>) \<and>
   dict_getitem [(''x'', [5, 6, 7 :: real])] (last (dict_keys [(''x'', [5, 6, 7 :: real])])) =
     Inr [5, 6, 7] \<and>
   ''Data points: '' @ str_nat (length [5, 6, 7 :: real]) = ''Data points: 3'' \<and>
   file_dialog (file_env ''/a/b/run2.json'' (Inr (''A'', [], []))) run1_viewer =
     ''/a/b/run2.json'' \<and>
   start (file_env ''/a/b/run2.json'' (Inr (''A'', [], []))) run1_viewer =
     (None, run1_viewer\<lparr>lists := [], last_path := ''/a/b/run2.json'',
        configuration := JObj [], leHeader := ''A'', leSavedName := ''run2.json'',
        emitted := [Update_plots, Started, Update_plots, Started]\<rparr>) \<and>
   lbCount run1_viewer = ''Data points: 3''"
proof -
  let ?d4 = "[(''x'', [5, 6, 7 :: real])]"
  let ?e4 = "file_env ''/a/b/run4.json'' (Inr (''A'', ?d4, []))"
  let ?v4 = "fresh_viewer\<lparr>lists := ?d4, last_path := ''/a/b/run4.json'',
        leHeader := ''A'', leSavedName := ''run4.json'', lbCount := ''Data points: 3'',
        emitted := [Update_plots, Started]\<rparr>"
  let ?e2 = "file_env ''/a/b/run2.json'' (Inr (''A'', [], []))"
  let ?v2 = "run1_viewer\<lparr>lists := [], last_path := ''/a/b/run2.json'',
        configuration := JObj [], leHeader := ''A'', leSavedName := ''run2.json'',
        emitted := [Update_plots, Started, Update_plots, Started]\<rparr>"
  have d4: "file_dialog ?e4 fresh_viewer = ''/a/b/run4.json''"
    by (simp add: file_dialog_def file_env_def)
  have n4: "''/a/b/run4.json'' \<noteq> []" by simp
  have l4: "load_datalogger_file ?e4 (Path ''/a/b/run4.json'') = Inr (''A'', ?d4, [])"
    by (simp add: file_env_def)
  have run4: "start ?e4 fresh_viewer = (None, ?v4)"
    by (simp add: run_defs str_nat.simps)
  have g4: "dict_getitem ?d4 (last (dict_keys ?d4)) = Inr [5, 6, 7]"
    by (simp add: dict_getitem_def dict_keys_def)
  have d2: "file_dialog ?e2 run1_viewer = ''/a/b/run2.json''"
    by (simp add: file_dialog_def file_env_def)
  have n2: "''/a/b/run2.json'' \<noteq> []" by simp
  have l2: "load_datalogger_file ?e2 (Path ''/a/b/run2.json'') = Inr (''A'', [], [])"
    by (simp add: file_env_def)
  have run2: "start ?e2 run1_viewer = (None, ?v2)"
    by (simp add: run_defs run1_viewer_def)
  have "dict_keys (lists ?v4) \<noteq> []"
    by (simp add: dict_keys_def)
  with data_point_count [OF d4 n4 l4 run4] g4
  have w4: "''Data points: '' @ str_nat (length [5, 6, 7 :: real]) = ''Data points: 3''"
    by (simp add: fresh_viewer_def)
  have "dict_keys (lists ?v2) = []"
    by (simp add: dict_keys_def)
  with data_point_count [OF d2 n2 l2 run2]
  have w2: "lbCount ?v2 = lbCount run1_viewer"
    by blast
  have c: "lbCount run1_viewer = ''Data points: 3''"
    by (simp add: run1_viewer_def)
  from d4 run4 g4 w4 d2 run2 c show ?thesis
    by blast
qed

end
